theory Spec2Isabelle
  imports Complex_Main
begin

section \<open>JavaScript values\<close>

text \<open>
  The two request handlers of \<^verbatim>\<open>backend/server.js\<close> read their inputs from a parsed
  JSON body (\<^verbatim>\<open>req.body\<close>) and from the parsed query string (\<^verbatim>\<open>req.query\<close>) and
  never check a type, so a field may hold any JSON value, or \<^verbatim>\<open>undefined\<close> when the key
  is absent. Numbers are IEEE doubles: every finite double is a rational, and a JSON
  literal out of range parses to an infinity. \<^verbatim>\<open>NaN\<close> is no JSON value and is never
  stored; it only appears as the result of a coercion.
\<close>

datatype jsnum = Finite rat | PosInf | NegInf

datatype jsval =
    JUndefined
  | JNull
  | JBool bool
  | JNum jsnum
  | JStr string
  | JArr "jsval list"
  | JObj "(string \<times> jsval) list"

text \<open>\<^verbatim>\<open>ToBoolean\<close>: what \<^verbatim>\<open>!x\<close>, \<^verbatim>\<open>x || y\<close> and \<^verbatim>\<open>x ? a : b\<close> test.\<close>

fun truthy :: "jsval \<Rightarrow> bool" where
  "truthy JUndefined = False"
| "truthy JNull = False"
| "truthy (JBool b) = b"
| "truthy (JNum (Finite r)) = (r \<noteq> 0)"
| "truthy (JNum PosInf) = True"
| "truthy (JNum NegInf) = True"
| "truthy (JStr s) = (s \<noteq> [])"
| "truthy (JArr xs) = True"
| "truthy (JObj kvs) = True"

text \<open>The order of the doubles that are not \<^verbatim>\<open>NaN\<close>.\<close>

fun num_less :: "jsnum \<Rightarrow> jsnum \<Rightarrow> bool" where
  "num_less (Finite a) (Finite b) = (a < b)"
| "num_less (Finite a) PosInf = True"
| "num_less (Finite a) NegInf = False"
| "num_less PosInf y = False"
| "num_less NegInf NegInf = False"
| "num_less NegInf y = True"

text \<open>
  \<^verbatim>\<open>ToNumber\<close>, which the relational operators apply to an operand that is not a number.
  On \<^verbatim>\<open>undefined\<close>, \<^verbatim>\<open>null\<close>, booleans and numbers the language fixes the result. On a
  string it is the runtime's numeric-literal parser with rounding to a double, and on an
  array or object it is \<^verbatim>\<open>ToPrimitive\<close> followed by that parser; \<^verbatim>\<open>ToPrimitive\<close> throws a
  \<^verbatim>\<open>TypeError\<close> on an object whose \<^verbatim>\<open>valueOf\<close> and \<^verbatim>\<open>toString\<close> are both shadowed by
  values that are not callable. That part belongs to the runtime, not to this repository,
  and is a parameter \<open>rt\<close> of the model.
\<close>

datatype tonum = IsNum jsnum | IsNaN | Throws

datatype exn = TypeError

fun ToNumber :: "(jsval \<Rightarrow> tonum) \<Rightarrow> jsval \<Rightarrow> tonum" where
  "ToNumber rt JUndefined = IsNaN"
| "ToNumber rt JNull = IsNum (Finite 0)"
| "ToNumber rt (JBool b) = IsNum (Finite (if b then 1 else 0))"
| "ToNumber rt (JNum n) = IsNum n"
| "ToNumber rt v = rt v"

text \<open>\<^verbatim>\<open>v > n\<close> for a number \<open>n\<close>: false when \<open>v\<close> coerces to \<^verbatim>\<open>NaN\<close>.\<close>

definition js_gt :: "(jsval \<Rightarrow> tonum) \<Rightarrow> jsval \<Rightarrow> jsnum \<Rightarrow> exn + bool" where
  "js_gt rt v n =
     (case ToNumber rt v of
        Throws \<Rightarrow> Inl TypeError
      | IsNaN \<Rightarrow> Inr False
      | IsNum x \<Rightarrow> Inr (num_less n x))"

section \<open>The dispatch coordinator (\<^verbatim>\<open>backend/server.js\<close>)\<close>

subsection \<open>State\<close>

record device =
  isBusy :: jsval
  memory :: jsval

record task =
  content :: string
  picUrl :: string

text \<open>
  The two module-level variables: \<^verbatim>\<open>deviceStatus\<close>, a \<^verbatim>\<open>Map\<close> whose keys are strings,
  and the array \<^verbatim>\<open>guideTaskQueue\<close>.
\<close>

record server =
  deviceStatus :: "string \<rightharpoonup> device"
  guideTaskQueue :: "task list"

text \<open>
  \<^verbatim>\<open>Map.prototype.has/get/set\<close> compare keys by \<^verbatim>\<open>SameValueZero\<close>: a key that is not a
  string equals none of the string keys. \<^verbatim>\<open>set\<close> is only called after \<^verbatim>\<open>has\<close> succeeded,
  hence with a string.
\<close>

definition map_get :: "(string \<rightharpoonup> device) \<Rightarrow> jsval \<Rightarrow> device option" where
  "map_get m key = (case key of JStr k \<Rightarrow> m k | _ \<Rightarrow> None)"

definition map_has :: "(string \<rightharpoonup> device) \<Rightarrow> jsval \<Rightarrow> bool" where
  "map_has m key = (map_get m key \<noteq> None)"

definition map_set :: "(string \<rightharpoonup> device) \<Rightarrow> jsval \<Rightarrow> device \<Rightarrow> (string \<rightharpoonup> device)" where
  "map_set m key d = (case key of JStr k \<Rightarrow> m(k \<mapsto> d) | _ \<Rightarrow> m)"

text \<open>Decimal digits of a loop index, as a template literal prints it.\<close>

definition digit_char :: "nat \<Rightarrow> char" where
  "digit_char d =
     (if d = 0 then CHR ''0'' else if d = 1 then CHR ''1'' else if d = 2 then CHR ''2''
      else if d = 3 then CHR ''3'' else if d = 4 then CHR ''4'' else if d = 5 then CHR ''5''
      else if d = 6 then CHR ''6'' else if d = 7 then CHR ''7'' else if d = 8 then CHR ''8''
      else CHR ''9'')"

fun string_of_nat :: "nat \<Rightarrow> string" where
  "string_of_nat n =
     (if n < 10 then [digit_char n]
      else string_of_nat (n div 10) @ [digit_char (n mod 10)])"

declare string_of_nat.simps [simp del]

definition screen_name :: "nat \<Rightarrow> string" where
  "screen_name i = ''hospital-screen-'' @ string_of_nat i"

text \<open>
  The start-up loop \<^verbatim>\<open>for (let i = 0; i < 20; i++) deviceStatus.set(..., {isBusy: false, memory: 0})\<close>.
\<close>

definition idle_device :: device where
  "idle_device = \<lparr>isBusy = JBool False, memory = JNum (Finite 0)\<rparr>"

definition deviceStatus_init :: "string \<rightharpoonup> device" where
  "deviceStatus_init =
     fold (\<lambda>i m. m(screen_name i \<mapsto> idle_device)) [0..<20] Map.empty"

text \<open>
  The initial queue. The three \<^verbatim>\<open>content\<close> texts are Chinese sentences, outside ASCII,
  and are taken as parameters; the image addresses are the source's.
\<close>

definition guideTaskQueue_init :: "string \<Rightarrow> string \<Rightarrow> string \<Rightarrow> task list" where
  "guideTaskQueue_init c1 c2 c3 =
     [\<lparr>content = c1, picUrl = ''https://your-server/department-map-1.png''\<rparr>,
      \<lparr>content = c2, picUrl = ''https://your-server/registration-guide.png''\<rparr>,
      \<lparr>content = c3, picUrl = ''https://your-server/pharmacy-location.png''\<rparr>]"

definition server_init :: "string \<Rightarrow> string \<Rightarrow> string \<Rightarrow> server" where
  "server_init c1 c2 c3 =
     \<lparr>deviceStatus = deviceStatus_init, guideTaskQueue = guideTaskQueue_init c1 c2 c3\<rparr>"

subsection \<open>Responses\<close>

text \<open>
  The \<^verbatim>\<open>msg\<close> texts are Chinese; each constructor stands for one of them:
  \<^item> \<open>ParamsIncomplete\<close>: "parameters incomplete (deviceId/isBusy/memory needed)";
  \<^item> \<open>StatusUpdated\<close>: "status updated";
  \<^item> \<open>DeviceIdOutOfRange\<close>: "device id does not exist (must be hospital-screen-0 to 19)";
  \<^item> \<open>MissingDeviceId\<close>: "deviceId parameter missing";
  \<^item> \<open>DeviceIdUnknown\<close>: "device id does not exist";
  \<^item> \<open>DeviceBusy id r\<close>: "device id busy (r)", where \<open>r\<close> is \<open>Running\<close> ("running") or
    \<open>MemoryTooHigh\<close> ("memory too high");
  \<^item> \<open>NoPendingTask\<close>: "no task waiting to be assigned".
\<close>

datatype reason = Running | MemoryTooHigh

datatype message =
    ParamsIncomplete
  | StatusUpdated
  | DeviceIdOutOfRange
  | MissingDeviceId
  | DeviceIdUnknown
  | DeviceBusy jsval reason
  | NoPendingTask

text \<open>
  A response is the HTTP status line's code and the JSON body. \<^verbatim>\<open>res.status(n).json(b)\<close>
  sends status \<open>n\<close>; \<^verbatim>\<open>res.json(b)\<close> alone sends the default status 200.
\<close>

record response =
  status :: nat
  code :: nat
  msg :: "message option"
  task :: "task option"

definition res_json :: "nat \<Rightarrow> nat \<Rightarrow> message option \<Rightarrow> task option \<Rightarrow> response" where
  "res_json st c m t = \<lparr>status = st, code = c, msg = m, task = t\<rparr>"

subsection \<open>\<^verbatim>\<open>POST /report-status\<close>\<close>

text \<open>
  The arguments are the three destructured fields of \<^verbatim>\<open>req.body\<close>, \<open>JUndefined\<close> for an
  absent key.
\<close>

definition report_status :: "server \<Rightarrow> jsval \<Rightarrow> jsval \<Rightarrow> jsval \<Rightarrow> response \<times> server" where
  "report_status s deviceId isBusy' memory' =
     (if \<not> truthy deviceId \<or> isBusy' = JUndefined \<or> memory' = JUndefined
      then (res_json 400 400 (Some ParamsIncomplete) None, s)
      else if map_has (deviceStatus s) deviceId
      then (res_json 200 200 (Some StatusUpdated) None,
            s\<lparr>deviceStatus :=
                map_set (deviceStatus s) deviceId \<lparr>isBusy = isBusy', memory = memory'\<rparr>\<rparr>)
      else (res_json 404 404 (Some DeviceIdOutOfRange) None, s))"

subsection \<open>\<^verbatim>\<open>GET /get-task\<close>\<close>

text \<open>
  The argument is \<^verbatim>\<open>req.query.deviceId\<close>. The handler either sends a response or lets the
  \<^verbatim>\<open>TypeError\<close> of the comparison escape; the state comes back in both cases.
\<close>

definition busy_or_over :: "(jsval \<Rightarrow> tonum) \<Rightarrow> device \<Rightarrow> exn + bool" where
  "busy_or_over rt d =
     (if truthy (isBusy d) then Inr True else js_gt rt (memory d) (Finite 350))"

definition get_task :: "(jsval \<Rightarrow> tonum) \<Rightarrow> server \<Rightarrow> jsval \<Rightarrow> (exn + response) \<times> server" where
  "get_task rt s deviceId =
     (if \<not> truthy deviceId
      then (Inr (res_json 400 400 (Some MissingDeviceId) None), s)
      else case map_get (deviceStatus s) deviceId of
        None \<Rightarrow> (Inr (res_json 404 404 (Some DeviceIdUnknown) None), s)
      | Some d \<Rightarrow>
          (case busy_or_over rt d of
             Inl e \<Rightarrow> (Inl e, s)
           | Inr True \<Rightarrow>
               (Inr (res_json 200 403
                      (Some (DeviceBusy deviceId
                               (if truthy (isBusy d) then Running else MemoryTooHigh)))
                      None), s)
           | Inr False \<Rightarrow>
               (case guideTaskQueue s of
                  t # ts \<Rightarrow> (Inr (res_json 200 200 None (Some t)), s\<lparr>guideTaskQueue := ts\<rparr>)
                | [] \<Rightarrow> (Inr (res_json 200 204 (Some NoPendingTask) None), s))))"

subsection \<open>States of the fleet\<close>

text \<open>
  The key set of \<^verbatim>\<open>deviceStatus\<close> is fixed by the start-up loop: no handler adds or
  deletes a key. A registry state is any assignment of records to those keys.
\<close>

definition registry_ok :: "server \<Rightarrow> bool" where
  "registry_ok s \<longleftrightarrow> dom (deviceStatus s) = dom deviceStatus_init"

text \<open>
  States used in the examples: the server after start-up with queue contents named
  \<open>T1\<close>, \<open>T2\<close>, \<open>T3\<close>, and a runtime whose string and object coercions all give \<^verbatim>\<open>NaN\<close>
  (the examples never reach it).
\<close>

definition fleet0 :: server where
  "fleet0 = server_init ''T1'' ''T2'' ''T3''"

definition rt0 :: "jsval \<Rightarrow> tonum" where
  "rt0 v = IsNaN"

definition with_record :: "server \<Rightarrow> string \<Rightarrow> jsval \<Rightarrow> jsval \<Rightarrow> server" where
  "with_record s k b m = s\<lparr>deviceStatus := (deviceStatus s)(k \<mapsto> \<lparr>isBusy = b, memory = m\<rparr>)\<rparr>"

definition busy5 :: server where
  "busy5 = with_record fleet0 ''hospital-screen-5'' (JBool True) (JNum (Finite 120))"

definition over5 :: server where
  "over5 = with_record fleet0 ''hospital-screen-5'' (JBool False) (JNum (Finite 360))"

definition idle5 :: server where
  "idle5 = with_record fleet0 ''hospital-screen-5'' (JBool False) (JNum (Finite 100))"

text \<open>
  \<open>poll rt s q n\<close>: \<open>n\<close> successive \<^verbatim>\<open>GET /get-task\<close> requests with the same \<open>deviceId\<close>,
  each on the state the one before it left; the outcomes in order, and the final state.
\<close>

fun poll :: "(jsval \<Rightarrow> tonum) \<Rightarrow> server \<Rightarrow> jsval \<Rightarrow> nat \<Rightarrow> (exn + response) list \<times> server" where
  "poll rt s q 0 = ([], s)"
| "poll rt s q (Suc n) =
     (case get_task rt s q of
        (r, s') \<Rightarrow> (case poll rt s' q n of (rs, s'') \<Rightarrow> (r # rs, s'')))"

text \<open>
  What a client sees of an outcome: the status code of the HTTP response and the
  \<^verbatim>\<open>code\<close> field of its body; nothing of either when the handler threw.
\<close>

definition http_status :: "exn + response \<Rightarrow> nat option" where
  "http_status out = (case out of Inl e \<Rightarrow> None | Inr r \<Rightarrow> Some (status r))"

definition body_code :: "exn + response \<Rightarrow> nat option" where
  "body_code out = (case out of Inl e \<Rightarrow> None | Inr r \<Rightarrow> Some (code r))"

section \<open>The device side (\<^verbatim>\<open>frontend/device-utils.js\<close>)\<close>

subsection \<open>The page's state\<close>

text \<open>
  What the two lifecycle functions touch: the SDK handle \<^verbatim>\<open>window.digitalHumanSdk\<close>
  (absent until the SDK is initialised), the alerts shown, the console, and the timers
  registered with \<^verbatim>\<open>setTimeout\<close>, each with its callback and its delay in milliseconds.
  Of the SDK handle only the background it shows is modelled.
\<close>

datatype background = SceneBackground | DefaultBackground

record sdk =
  background :: background

datatype callback = InitDigitalHumanSdk | DailyReset

record timer =
  callback :: callback
  delay :: int

datatype alert_text = ContainerInitFailed

datatype console_line =
    LogResetPlanned int int
  | LogReconnecting
  | LogUnhandled jsval

record window =
  digitalHumanSdk :: "sdk option"
  alerts :: "alert_text list"
  console :: "console_line list"
  timeouts :: "timer list"

subsection \<open>\<^verbatim>\<open>scheduleDailyReset\<close>\<close>

text \<open>
  A \<^verbatim>\<open>Date\<close> is its time value, milliseconds since the epoch in UTC. The local calendar
  is the runtime's: a time zone is the pair of the language's two conversions,
  \<open>LocalTime\<close> from a time value to local milliseconds and \<open>UTC\<close> from local
  milliseconds back to a time value, and is a parameter of the model. Where local clocks
  jump at a daylight-saving transition the two are not inverse to each other, and \<open>UTC\<close>
  reads a local time that is skipped or repeated with the offset in force before the
  transition.
\<close>

record zone =
  LocalTime :: "int \<Rightarrow> int"
  UTC :: "int \<Rightarrow> int"

definition msPerHour :: int where
  "msPerHour = 3600000"

definition msPerDay :: int where
  "msPerDay = 86400000"

definition Day :: "int \<Rightarrow> int" where
  "Day t = t div msPerDay"

definition TimeWithinDay :: "int \<Rightarrow> int" where
  "TimeWithinDay t = t mod msPerDay"

definition MakeDate :: "int \<Rightarrow> int \<Rightarrow> int" where
  "MakeDate day time = day * msPerDay + time"

text \<open>
  \<^verbatim>\<open>setHours(2, 0, 0, 0)\<close>: the local day of the time value with the time of day 02:00,
  converted back. \<^verbatim>\<open>setDate(getDate() + 1)\<close>: the next local day with the local time of
  day kept, converted back. The range check of time values (\<^verbatim>\<open>TimeClip\<close>) is left out:
  the time value comes from the clock.
\<close>

definition setHours2 :: "zone \<Rightarrow> int \<Rightarrow> int" where
  "setHours2 z t = UTC z (MakeDate (Day (LocalTime z t)) (2 * msPerHour))"

definition setDateNext :: "zone \<Rightarrow> int \<Rightarrow> int" where
  "setDateNext z t =
     UTC z (MakeDate (Day (LocalTime z t) + 1) (TimeWithinDay (LocalTime z t)))"

text \<open>The value of the variable \<^verbatim>\<open>resetTime\<close> when the timer is registered.\<close>

definition resetTime :: "zone \<Rightarrow> int \<Rightarrow> int" where
  "resetTime z now =
     (let r = setHours2 z now in if now > r then setDateNext z r else r)"

definition scheduleDailyReset :: "zone \<Rightarrow> int \<Rightarrow> window \<Rightarrow> window" where
  "scheduleDailyReset z now w =
     (let r = resetTime z now; d = r - now
      in w\<lparr>console := console w @ [LogResetPlanned r (d div msPerHour)],
           timeouts := timeouts w @ [\<lparr>callback = DailyReset, delay = d\<rparr>]\<rparr>)"

text \<open>
  The local calendar of a time value: the number of its local day and its local time of
  day in milliseconds, which \<^verbatim>\<open>getDate\<close>, \<^verbatim>\<open>getHours\<close> and the like read.
\<close>

definition local_day :: "zone \<Rightarrow> int \<Rightarrow> int" where
  "local_day z t = Day (LocalTime z t)"

definition local_time :: "zone \<Rightarrow> int \<Rightarrow> int" where
  "local_time z t = TimeWithinDay (LocalTime z t)"

text \<open>
  A zone whose local time is UTC plus the same offset \<open>tz\<close> (in milliseconds) at all
  times: one without daylight-saving transitions, such as the hospital's (eight hours
  ahead of UTC).
\<close>

definition fixed_offset :: "int \<Rightarrow> zone" where
  "fixed_offset tz = \<lparr>LocalTime = (\<lambda>t. t + tz), UTC = (\<lambda>l. l - tz)\<rparr>"

text \<open>
  A zone with transitions, for the examples: New York during 2024. Local time is five
  hours behind UTC until 2024-03-10 07:00 UTC, four hours behind until 2024-11-03 06:00
  UTC, and five hours behind after that. Local 02:00 to 03:00 of 10 March is skipped and
  local 01:00 to 02:00 of 3 November is repeated; \<open>UTC\<close> reads both with the offset
  before the transition.
\<close>

definition new_york_2024 :: zone where
  "new_york_2024 =
     \<lparr>LocalTime = (\<lambda>t. if t < 1710054000000 then t - 18000000
                        else if t < 1730613600000 then t - 14400000
                        else t - 18000000),
      UTC = (\<lambda>l. if l < 1710039600000 then l + 18000000
                  else if l < 1730599200000 then l + 14400000
                  else l + 18000000)\<rparr>"

text \<open>A page on which nothing has happened yet, for the examples.\<close>

definition window0 :: window where
  "window0 = \<lparr>digitalHumanSdk = None, alerts = [], console = [], timeouts = []\<rparr>"

subsection \<open>\<^verbatim>\<open>handleSdkError\<close>\<close>

text \<open>
  \<^verbatim>\<open>switch\<close> compares with \<^verbatim>\<open>===\<close>: a case is taken only by the number itself.
  \<^verbatim>\<open>window.digitalHumanSdk?.setDefaultBackground()\<close> calls the SDK when the handle is
  there and does nothing when it is not.
\<close>

definition handleSdkError :: "window \<Rightarrow> jsval \<Rightarrow> window" where
  "handleSdkError w errorCode =
     (if errorCode = JNum (Finite 10001)
      then w\<lparr>alerts := alerts w @ [ContainerInitFailed]\<rparr>
      else if errorCode = JNum (Finite 10002)
      then w\<lparr>console := console w @ [LogReconnecting],
             timeouts := timeouts w @ [\<lparr>callback = InitDigitalHumanSdk, delay = 5000\<rparr>]\<rparr>
      else if errorCode = JNum (Finite 30001)
      then w\<lparr>digitalHumanSdk :=
               map_option (\<lambda>h. h\<lparr>background := DefaultBackground\<rparr>) (digitalHumanSdk w)\<rparr>
      else w\<lparr>console := console w @ [LogUnhandled errorCode]\<rparr>)"

section \<open>Properties of the coordinator\<close>

subsection \<open>The provisioned set\<close>

lemma fold_set_dom:
  "dom (fold (\<lambda>i m. m(f i \<mapsto> v)) xs m0) = dom m0 \<union> f ` set xs"
  by (induction xs arbitrary: m0) auto

lemma dom_deviceStatus_init: "dom deviceStatus_init = screen_name ` {0..<20}"
  by (simp add: deviceStatus_init_def fold_set_dom)

lemma provisioned_nonempty:
  assumes "k \<in> dom deviceStatus_init"
  shows "k \<noteq> []"
  using assms by (auto simp: dom_deviceStatus_init screen_name_def)

lemma screen5_init: "deviceStatus_init ''hospital-screen-5'' = Some idle_device"
  by (simp add: deviceStatus_init_def upt_rec screen_name_def string_of_nat.simps digit_char_def)

lemma screen20_init: "deviceStatus_init ''hospital-screen-20'' = None"
  by (simp add: deviceStatus_init_def upt_rec screen_name_def string_of_nat.simps digit_char_def)

lemma registry_ok_fleet0: "registry_ok fleet0"
  by (simp add: registry_ok_def fleet0_def server_init_def)

lemma registry_ok_key:
  assumes "registry_ok s" and "deviceStatus s k = Some d"
  shows "truthy (JStr k)"
proof -
  from assms have "k \<in> dom deviceStatus_init"
    by (auto simp: registry_ok_def)
  then show ?thesis
    by (simp add: provisioned_nonempty)
qed

lemma registry_ok_report_status:
  assumes "registry_ok s"
  shows "registry_ok (snd (report_status s deviceId b m))"
proof (cases deviceId)
  case (JStr k)
  with assms show ?thesis
    by (auto simp: registry_ok_def report_status_def map_has_def map_get_def map_set_def)
qed (use assms in \<open>simp_all add: registry_ok_def report_status_def map_has_def map_get_def\<close>)

subsection \<open>The branches of \<^verbatim>\<open>GET /get-task\<close>\<close>

lemma get_task_missing:
  assumes "\<not> truthy q"
  shows "get_task rt s q = (Inr (res_json 400 400 (Some MissingDeviceId) None), s)"
  using assms by (simp add: get_task_def)

lemma get_task_unknown:
  assumes "truthy q" and "map_get (deviceStatus s) q = None"
  shows "get_task rt s q = (Inr (res_json 404 404 (Some DeviceIdUnknown) None), s)"
  using assms by (simp add: get_task_def)

lemma get_task_throws:
  assumes "truthy q" and "map_get (deviceStatus s) q = Some d"
    and "busy_or_over rt d = Inl e"
  shows "get_task rt s q = (Inl e, s)"
  using assms by (simp add: get_task_def)

lemma get_task_busy:
  assumes "truthy q" and "map_get (deviceStatus s) q = Some d"
    and "busy_or_over rt d = Inr True"
  shows "get_task rt s q =
           (Inr (res_json 200 403
                  (Some (DeviceBusy q (if truthy (isBusy d) then Running else MemoryTooHigh)))
                  None), s)"
  using assms by (simp add: get_task_def)

lemma get_task_assign:
  assumes "truthy q" and "map_get (deviceStatus s) q = Some d"
    and "busy_or_over rt d = Inr False" and "guideTaskQueue s = t # ts"
  shows "get_task rt s q = (Inr (res_json 200 200 None (Some t)), s\<lparr>guideTaskQueue := ts\<rparr>)"
  using assms by (simp add: get_task_def)

lemma get_task_empty:
  assumes "truthy q" and "map_get (deviceStatus s) q = Some d"
    and "busy_or_over rt d = Inr False" and "guideTaskQueue s = []"
  shows "get_task rt s q = (Inr (res_json 200 204 (Some NoPendingTask) None), s)"
  using assms by (simp add: get_task_def)

text \<open>Every call takes exactly one of the six branches.\<close>

lemma get_task_cases:
  obtains
    (missing) "\<not> truthy q"
  | (unknown) "truthy q" "map_get (deviceStatus s) q = None"
  | (throws) d e where "truthy q" "map_get (deviceStatus s) q = Some d"
      "busy_or_over rt d = Inl e"
  | (busy) d where "truthy q" "map_get (deviceStatus s) q = Some d"
      "busy_or_over rt d = Inr True"
  | (assign) d t ts where "truthy q" "map_get (deviceStatus s) q = Some d"
      "busy_or_over rt d = Inr False" "guideTaskQueue s = t # ts"
  | (empty) d where "truthy q" "map_get (deviceStatus s) q = Some d"
      "busy_or_over rt d = Inr False" "guideTaskQueue s = []"
proof (cases "truthy q")
  case False
  then show ?thesis by (rule missing)
next
  case True
  show ?thesis
  proof (cases "map_get (deviceStatus s) q")
    case None
    with True show ?thesis by (rule unknown)
  next
    case (Some d)
    show ?thesis
    proof (cases "busy_or_over rt d")
      case (Inl e)
      with True Some show ?thesis by (rule throws)
    next
      case (Inr b)
      show ?thesis
      proof (cases b)
        case True
        with \<open>truthy q\<close> Some Inr show ?thesis by (simp add: busy)
      next
        case False
        with \<open>truthy q\<close> Some Inr show ?thesis
          by (cases "guideTaskQueue s") (simp_all add: assign empty)
      qed
    qed
  qed
qed

lemma busy_or_over_typed:
  "busy_or_over rt \<lparr>isBusy = JBool b, memory = JNum m\<rparr> = Inr (b \<or> num_less (Finite 350) m)"
  by (simp add: busy_or_over_def js_gt_def)

lemma registry_ok_with_record:
  assumes "registry_ok s" and "k \<in> dom (deviceStatus s)"
  shows "registry_ok (with_record s k b m)"
  using assms by (auto simp: registry_ok_def with_record_def)

lemma screen5_fleet0: "''hospital-screen-5'' \<in> dom (deviceStatus fleet0)"
  by (simp add: fleet0_def server_init_def screen5_init domI)

lemma registry_ok_busy5: "registry_ok busy5"
  unfolding busy5_def by (rule registry_ok_with_record [OF registry_ok_fleet0 screen5_fleet0])

lemma registry_ok_over5: "registry_ok over5"
  unfolding over5_def by (rule registry_ok_with_record [OF registry_ok_fleet0 screen5_fleet0])

lemma registry_ok_idle5: "registry_ok idle5"
  unfolding idle5_def by (rule registry_ok_with_record [OF registry_ok_fleet0 screen5_fleet0])

lemma with_record_lookup:
  "deviceStatus (with_record s k b m) k = Some \<lparr>isBusy = b, memory = m\<rparr>"
  by (simp add: with_record_def)

lemma with_record_queue: "guideTaskQueue (with_record s k b m) = guideTaskQueue s"
  by (simp add: with_record_def)

lemma fleet0_queue:
  "guideTaskQueue fleet0 =
     [\<lparr>content = ''T1'', picUrl = ''https://your-server/department-map-1.png''\<rparr>,
      \<lparr>content = ''T2'', picUrl = ''https://your-server/registration-guide.png''\<rparr>,
      \<lparr>content = ''T3'', picUrl = ''https://your-server/pharmacy-location.png''\<rparr>]"
  by (simp add: fleet0_def server_init_def guideTaskQueue_init_def)

subsection \<open>The eligibility gate\<close>

text \<open>
  C1. For every registry state over the provisioned keys and every provisioned
  \<open>deviceId\<close>, \<^verbatim>\<open>GET /get-task\<close> assigns no task when the device's record is busy or its
  memory is above 350: the answer is then the Busy response (body code 403, no task) and
  the state, hence the queue, is the one before the call. The first conjunct says so for
  whatever the record holds (a truthy \<open>isBusy\<close>, a \<open>memory\<close> that compares greater than
  350), the next two for a record with \<open>isBusy = true\<close> and for one with a number above
  350. The last conjunct is the converse: whenever a response carries a task, the
  record of the requesting device is not busy and its memory is not above 350; a number
  stored there is at most 350.
\<close>

theorem requestTask_gate:
  assumes "registry_ok s" and "deviceStatus s k = Some d"
  shows "(truthy (isBusy d) \<or> js_gt rt (memory d) (Finite 350) = Inr True \<longrightarrow>
            (\<exists>r. get_task rt s (JStr k) = (Inr r, s) \<and> code r = 403 \<and> task r = None))
       \<and> (isBusy d = JBool True \<longrightarrow>
            (\<exists>r. get_task rt s (JStr k) = (Inr r, s) \<and> code r = 403 \<and> task r = None))
       \<and> (\<forall>m. memory d = JNum m \<and> num_less (Finite 350) m \<longrightarrow>
            (\<exists>r. get_task rt s (JStr k) = (Inr r, s) \<and> code r = 403 \<and> task r = None))
       \<and> (\<forall>r s' t. get_task rt s (JStr k) = (Inr r, s') \<and> task r = Some t \<longrightarrow>
            \<not> truthy (isBusy d) \<and> (\<forall>b. isBusy d = JBool b \<longrightarrow> \<not> b)
            \<and> js_gt rt (memory d) (Finite 350) = Inr False
            \<and> (\<forall>m. memory d = JNum m \<longrightarrow> \<not> num_less (Finite 350) m)
            \<and> (\<forall>x. memory d = JNum (Finite x) \<longrightarrow> x \<le> 350))"
proof -
  have key: "truthy (JStr k)"
    using assms by (rule registry_ok_key)
  have look: "map_get (deviceStatus s) (JStr k) = Some d"
    using assms(2) by (simp add: map_get_def)
  have gate: "\<exists>r. get_task rt s (JStr k) = (Inr r, s) \<and> code r = 403 \<and> task r = None"
    if "busy_or_over rt d = Inr True"
    using get_task_busy [OF key look that] by (simp add: res_json_def)
  have A: "busy_or_over rt d = Inr True"
    if "truthy (isBusy d) \<or> js_gt rt (memory d) (Finite 350) = Inr True"
    using that by (auto simp: busy_or_over_def)
  have B: "busy_or_over rt d = Inr True" if "isBusy d = JBool True"
    using that by (simp add: busy_or_over_def)
  have C: "busy_or_over rt d = Inr True" if "memory d = JNum m" "num_less (Finite 350) m" for m
    using that by (simp add: busy_or_over_def js_gt_def)
  have D: "busy_or_over rt d = Inr False"
    if "get_task rt s (JStr k) = (Inr r, s')" "task r = Some t" for r s' t
  proof (cases rule: get_task_cases [where q = "JStr k" and s = s and rt = rt])
    case (assign d' t' ts)
    with look show ?thesis by simp
  qed (use that key look in \<open>auto simp: get_task_missing get_task_unknown get_task_throws
        get_task_busy get_task_empty res_json_def\<close>)
  have E: "\<not> truthy (isBusy d) \<and> (\<forall>b. isBusy d = JBool b \<longrightarrow> \<not> b)
            \<and> js_gt rt (memory d) (Finite 350) = Inr False
            \<and> (\<forall>m. memory d = JNum m \<longrightarrow> \<not> num_less (Finite 350) m)
            \<and> (\<forall>x. memory d = JNum (Finite x) \<longrightarrow> x \<le> 350)"
    if "busy_or_over rt d = Inr False"
    using that by (auto simp: busy_or_over_def js_gt_def split: if_splits)
  from gate A B C D E show ?thesis
    by blast
qed

theorem requestTask_gate_witness:
  "get_task rt0 busy5 (JStr ''hospital-screen-5'') =
     (Inr (res_json 200 403 (Some (DeviceBusy (JStr ''hospital-screen-5'') Running)) None), busy5)
   \<and> get_task rt0 over5 (JStr ''hospital-screen-5'') =
     (Inr (res_json 200 403 (Some (DeviceBusy (JStr ''hospital-screen-5'') MemoryTooHigh)) None), over5)
   \<and> get_task rt0 idle5 (JStr ''hospital-screen-5'') =
     (Inr (res_json 200 200 None
            (Some \<lparr>content = ''T1'', picUrl = ''https://your-server/department-map-1.png''\<rparr>)),
      idle5\<lparr>guideTaskQueue :=
        [\<lparr>content = ''T2'', picUrl = ''https://your-server/registration-guide.png''\<rparr>,
         \<lparr>content = ''T3'', picUrl = ''https://your-server/pharmacy-location.png''\<rparr>]\<rparr>)
   \<and> \<not> truthy (JBool False) \<and> (100::rat) \<le> 350"
proof -
  let ?k = "''hospital-screen-5''"
  have b: "deviceStatus busy5 ?k = Some \<lparr>isBusy = JBool True, memory = JNum (Finite 120)\<rparr>"
    unfolding busy5_def by (rule with_record_lookup)
  have c: "deviceStatus over5 ?k = Some \<lparr>isBusy = JBool False, memory = JNum (Finite 360)\<rparr>"
    unfolding over5_def by (rule with_record_lookup)
  have i: "deviceStatus idle5 ?k = Some \<lparr>isBusy = JBool False, memory = JNum (Finite 100)\<rparr>"
    unfolding idle5_def by (rule with_record_lookup)
  have q: "guideTaskQueue idle5 = guideTaskQueue fleet0"
    unfolding idle5_def by (rule with_record_queue)
  have 1: "get_task rt0 busy5 (JStr ?k) =
     (Inr (res_json 200 403 (Some (DeviceBusy (JStr ?k) Running)) None), busy5)"
    using requestTask_gate [OF registry_ok_busy5 b, of rt0] b
    by (simp add: get_task_def map_get_def busy_or_over_def)
  have 2: "get_task rt0 over5 (JStr ?k) =
     (Inr (res_json 200 403 (Some (DeviceBusy (JStr ?k) MemoryTooHigh)) None), over5)"
    using requestTask_gate [OF registry_ok_over5 c, of rt0] c
    by (simp add: get_task_def map_get_def busy_or_over_def js_gt_def)
  have 3: "get_task rt0 idle5 (JStr ?k) =
     (Inr (res_json 200 200 None
            (Some \<lparr>content = ''T1'', picUrl = ''https://your-server/department-map-1.png''\<rparr>)),
      idle5\<lparr>guideTaskQueue :=
        [\<lparr>content = ''T2'', picUrl = ''https://your-server/registration-guide.png''\<rparr>,
         \<lparr>content = ''T3'', picUrl = ''https://your-server/pharmacy-location.png''\<rparr>]\<rparr>)"
    using i q fleet0_queue
    by (simp add: get_task_def map_get_def busy_or_over_def js_gt_def)
  from 3 requestTask_gate [OF registry_ok_idle5 i, of rt0]
  have "\<not> truthy (JBool False) \<and> (100::rat) \<le> 350"
    by (simp add: res_json_def)
  with 1 2 3 show ?thesis
    by blast
qed

subsection \<open>Dispatch order\<close>

lemma eligible_100:
  "busy_or_over rt \<lparr>isBusy = JBool False, memory = JNum (Finite 100)\<rparr> = Inr False"
  by (simp add: busy_or_over_typed)

lemma queue_update_same:
  assumes "guideTaskQueue s = ts"
  shows "s\<lparr>guideTaskQueue := ts\<rparr> = s"
  using assms by auto

text \<open>
  A device whose record is eligible and stays so drains the queue from the head: of \<open>n\<close>
  requests the first ones get the queued tasks in order, one each, and the others the
  empty-queue answer.
\<close>

lemma poll_fifo:
  assumes "truthy (JStr k)" and "deviceStatus s k = Some d"
    and "busy_or_over rt d = Inr False"
  shows "poll rt s (JStr k) n =
           (map (\<lambda>t. Inr (res_json 200 200 None (Some t))) (take n (guideTaskQueue s))
              @ replicate (n - length (guideTaskQueue s))
                  (Inr (res_json 200 204 (Some NoPendingTask) None)),
            s\<lparr>guideTaskQueue := drop n (guideTaskQueue s)\<rparr>)"
  using assms(2)
proof (induction n arbitrary: s)
  case 0
  then show ?case by simp
next
  case (Suc n)
  from Suc.prems have look: "map_get (deviceStatus s) (JStr k) = Some d"
    by (simp add: map_get_def)
  show ?case
  proof (cases "guideTaskQueue s")
    case Nil
    have step: "get_task rt s (JStr k) = (Inr (res_json 200 204 (Some NoPendingTask) None), s)"
      using assms(1) look assms(3) Nil by (rule get_task_empty)
    from Suc.IH [OF Suc.prems] Nil step show ?thesis
      by (simp add: queue_update_same)
  next
    case (Cons t ts)
    have step: "get_task rt s (JStr k) =
                  (Inr (res_json 200 200 None (Some t)), s\<lparr>guideTaskQueue := ts\<rparr>)"
      using assms(1) look assms(3) Cons by (rule get_task_assign)
    have "deviceStatus (s\<lparr>guideTaskQueue := ts\<rparr>) k = Some d"
      using Suc.prems by simp
    from Suc.IH [OF this] Cons step show ?thesis
      by simp
  qed
qed

lemma get_task_removes_head:
  assumes "get_task rt s q = (Inr r, s')" and "code r = 200"
  shows "\<exists>t. task r = Some t \<and> guideTaskQueue s = t # guideTaskQueue s'
              \<and> deviceStatus s' = deviceStatus s"
proof (cases rule: get_task_cases [where q = q and s = s and rt = rt])
  case (assign d t ts)
  with assms show ?thesis
    by (auto simp: get_task_assign res_json_def)
qed (use assms in \<open>auto simp: get_task_missing get_task_unknown get_task_throws
      get_task_busy get_task_empty res_json_def\<close>)

text \<open>
  C2. Dispatch is first-in first-out and exactly once. With the queue holding \<open>T1\<close>,
  \<open>T2\<close>, \<open>T3\<close> and a provisioned device whose record is \<open>busy = false\<close>, \<open>memory = 100\<close>,
  four successive requests of that device are answered with \<open>T1\<close>, \<open>T2\<close>, \<open>T3\<close> and then
  the empty-queue answer (body code 204, a response and not an error), and leave the
  queue empty; the first three conjuncts after it give the state after each of the
  calls. In any state, a call answered with body code 200 carries the task that was at
  the head and leaves the queue without exactly that head.
\<close>

theorem dispatch_fifo:
  assumes "registry_ok s"
    and "deviceStatus s k = Some \<lparr>isBusy = JBool False, memory = JNum (Finite 100)\<rparr>"
    and "guideTaskQueue s = [T1, T2, T3]"
  shows "poll rt s (JStr k) 4 =
           ([Inr (res_json 200 200 None (Some T1)),
             Inr (res_json 200 200 None (Some T2)),
             Inr (res_json 200 200 None (Some T3)),
             Inr (res_json 200 204 (Some NoPendingTask) None)],
            s\<lparr>guideTaskQueue := []\<rparr>)
       \<and> get_task rt s (JStr k) =
           (Inr (res_json 200 200 None (Some T1)), s\<lparr>guideTaskQueue := [T2, T3]\<rparr>)
       \<and> get_task rt (s\<lparr>guideTaskQueue := [T2, T3]\<rparr>) (JStr k) =
           (Inr (res_json 200 200 None (Some T2)), s\<lparr>guideTaskQueue := [T3]\<rparr>)
       \<and> get_task rt (s\<lparr>guideTaskQueue := [T3]\<rparr>) (JStr k) =
           (Inr (res_json 200 200 None (Some T3)), s\<lparr>guideTaskQueue := []\<rparr>)
       \<and> get_task rt (s\<lparr>guideTaskQueue := []\<rparr>) (JStr k) =
           (Inr (res_json 200 204 (Some NoPendingTask) None), s\<lparr>guideTaskQueue := []\<rparr>)
       \<and> (\<forall>s0 q r s'. get_task rt s0 q = (Inr r, s') \<and> code r = 200 \<longrightarrow>
            (\<exists>t. task r = Some t \<and> guideTaskQueue s0 = t # guideTaskQueue s'))"
proof -
  let ?d = "\<lparr>isBusy = JBool False, memory = JNum (Finite 100)\<rparr>"
  have key: "truthy (JStr k)"
    using assms(1,2) by (rule registry_ok_key)
  have el: "busy_or_over rt ?d = Inr False"
    by (rule eligible_100)
  have look: "map_get (deviceStatus (s\<lparr>guideTaskQueue := ts\<rparr>)) (JStr k) = Some ?d" for ts
    using assms(2) by (simp add: map_get_def)
  have look0: "map_get (deviceStatus s) (JStr k) = Some ?d"
    using assms(2) by (simp add: map_get_def)
  have four: "take 4 [T1, T2, T3] = [T1, T2, T3]" "drop 4 [T1, T2, T3] = []"
    by simp_all
  have P: "poll rt s (JStr k) 4 =
           ([Inr (res_json 200 200 None (Some T1)),
             Inr (res_json 200 200 None (Some T2)),
             Inr (res_json 200 200 None (Some T3)),
             Inr (res_json 200 204 (Some NoPendingTask) None)],
            s\<lparr>guideTaskQueue := []\<rparr>)"
    using poll_fifo [OF key assms(2) el, of 4] assms(3) four
    by (simp add: numeral_eq_Suc)
  have 1: "get_task rt s (JStr k) =
           (Inr (res_json 200 200 None (Some T1)), s\<lparr>guideTaskQueue := [T2, T3]\<rparr>)"
    using key look0 el assms(3) by (rule get_task_assign)
  have 2: "get_task rt (s\<lparr>guideTaskQueue := [T2, T3]\<rparr>) (JStr k) =
           (Inr (res_json 200 200 None (Some T2)), s\<lparr>guideTaskQueue := [T3]\<rparr>)"
    using get_task_assign [OF key look el, of "[T2, T3]" T2 "[T3]"] by simp
  have 3: "get_task rt (s\<lparr>guideTaskQueue := [T3]\<rparr>) (JStr k) =
           (Inr (res_json 200 200 None (Some T3)), s\<lparr>guideTaskQueue := []\<rparr>)"
    using get_task_assign [OF key look el, of "[T3]" T3 "[]"] by simp
  have 4: "get_task rt (s\<lparr>guideTaskQueue := []\<rparr>) (JStr k) =
           (Inr (res_json 200 204 (Some NoPendingTask) None), s\<lparr>guideTaskQueue := []\<rparr>)"
    using get_task_empty [OF key look el, of "[]"] by simp
  have 5: "\<forall>s0 q r s'. get_task rt s0 q = (Inr r, s') \<and> code r = 200 \<longrightarrow>
            (\<exists>t. task r = Some t \<and> guideTaskQueue s0 = t # guideTaskQueue s')"
    using get_task_removes_head by blast
  from P 1 2 3 4 5 show ?thesis
    by blast
qed

theorem dispatch_fifo_witness:
  "registry_ok idle5
   \<and> deviceStatus idle5 ''hospital-screen-5'' =
       Some \<lparr>isBusy = JBool False, memory = JNum (Finite 100)\<rparr>
   \<and> poll rt0 idle5 (JStr ''hospital-screen-5'') 4 =
       ([Inr (res_json 200 200 None
               (Some \<lparr>content = ''T1'', picUrl = ''https://your-server/department-map-1.png''\<rparr>)),
         Inr (res_json 200 200 None
               (Some \<lparr>content = ''T2'', picUrl = ''https://your-server/registration-guide.png''\<rparr>)),
         Inr (res_json 200 200 None
               (Some \<lparr>content = ''T3'', picUrl = ''https://your-server/pharmacy-location.png''\<rparr>)),
         Inr (res_json 200 204 (Some NoPendingTask) None)],
        idle5\<lparr>guideTaskQueue := []\<rparr>)"
proof -
  have i: "deviceStatus idle5 ''hospital-screen-5'' =
             Some \<lparr>isBusy = JBool False, memory = JNum (Finite 100)\<rparr>"
    unfolding idle5_def by (rule with_record_lookup)
  have q: "guideTaskQueue idle5 =
     [\<lparr>content = ''T1'', picUrl = ''https://your-server/department-map-1.png''\<rparr>,
      \<lparr>content = ''T2'', picUrl = ''https://your-server/registration-guide.png''\<rparr>,
      \<lparr>content = ''T3'', picUrl = ''https://your-server/pharmacy-location.png''\<rparr>]"
    unfolding idle5_def by (simp only: with_record_queue fleet0_queue)
  from dispatch_fifo [OF registry_ok_idle5 i q, of rt0] registry_ok_idle5 i
  show ?thesis
    by blast
qed

subsection \<open>The branches of \<^verbatim>\<open>POST /report-status\<close>\<close>

lemma report_status_incomplete:
  assumes "\<not> truthy deviceId \<or> b = JUndefined \<or> m = JUndefined"
  shows "report_status s deviceId b m = (res_json 400 400 (Some ParamsIncomplete) None, s)"
  using assms by (simp add: report_status_def)

lemma report_status_unknown:
  assumes "truthy deviceId" and "b \<noteq> JUndefined" and "m \<noteq> JUndefined"
    and "map_get (deviceStatus s) deviceId = None"
  shows "report_status s deviceId b m = (res_json 404 404 (Some DeviceIdOutOfRange) None, s)"
  using assms by (simp add: report_status_def map_has_def)

lemma report_status_accepted:
  assumes "k \<noteq> []" and "b \<noteq> JUndefined" and "m \<noteq> JUndefined"
    and "k \<in> dom (deviceStatus s)"
  shows "report_status s (JStr k) b m =
           (res_json 200 200 (Some StatusUpdated) None, with_record s k b m)"
  using assms
  by (auto simp: report_status_def map_has_def map_get_def map_set_def with_record_def)

lemma screen5_provisioned:
  assumes "registry_ok s"
  shows "''hospital-screen-5'' \<in> dom (deviceStatus s)"
  using assms screen5_init by (auto simp: registry_ok_def)

subsection \<open>The reason given with a Busy answer\<close>

text \<open>
  C3. The Busy answer names its reason by a two-branch policy. For a provisioned device,
  a record that is busy (a truthy \<open>isBusy\<close>, in particular \<open>isBusy = true\<close>) gets the reason
  \<open>Running\<close> whatever its memory; a record that is not busy and whose memory is above 350
  gets the reason \<open>MemoryTooHigh\<close>. After the report (true, 120) of
  \<^verbatim>\<open>hospital-screen-5\<close> has been accepted, its request is answered Busy with reason
  \<open>Running\<close>; after the report (false, 360), Busy with reason \<open>MemoryTooHigh\<close>.
\<close>

theorem busy_reason_policy:
  assumes "registry_ok s" and "deviceStatus s k = Some d"
  shows "(truthy (isBusy d) \<longrightarrow>
            get_task rt s (JStr k) =
              (Inr (res_json 200 403 (Some (DeviceBusy (JStr k) Running)) None), s))
       \<and> (isBusy d = JBool True \<longrightarrow>
            get_task rt s (JStr k) =
              (Inr (res_json 200 403 (Some (DeviceBusy (JStr k) Running)) None), s))
       \<and> (\<not> truthy (isBusy d) \<and> js_gt rt (memory d) (Finite 350) = Inr True \<longrightarrow>
            get_task rt s (JStr k) =
              (Inr (res_json 200 403 (Some (DeviceBusy (JStr k) MemoryTooHigh)) None), s))
       \<and> (\<forall>m. isBusy d = JBool False \<and> memory d = JNum m \<and> num_less (Finite 350) m \<longrightarrow>
            get_task rt s (JStr k) =
              (Inr (res_json 200 403 (Some (DeviceBusy (JStr k) MemoryTooHigh)) None), s))
       \<and> (\<forall>s1. report_status s (JStr ''hospital-screen-5'') (JBool True) (JNum (Finite 120))
                 = (res_json 200 200 (Some StatusUpdated) None, s1) \<longrightarrow>
            get_task rt s1 (JStr ''hospital-screen-5'') =
              (Inr (res_json 200 403
                     (Some (DeviceBusy (JStr ''hospital-screen-5'') Running)) None), s1))
       \<and> (\<forall>s2. report_status s (JStr ''hospital-screen-5'') (JBool False) (JNum (Finite 360))
                 = (res_json 200 200 (Some StatusUpdated) None, s2) \<longrightarrow>
            get_task rt s2 (JStr ''hospital-screen-5'') =
              (Inr (res_json 200 403
                     (Some (DeviceBusy (JStr ''hospital-screen-5'') MemoryTooHigh)) None), s2))
       \<and> fst (report_status s (JStr ''hospital-screen-5'') (JBool True) (JNum (Finite 120)))
           = res_json 200 200 (Some StatusUpdated) None
       \<and> fst (report_status s (JStr ''hospital-screen-5'') (JBool False) (JNum (Finite 360)))
           = res_json 200 200 (Some StatusUpdated) None"
proof -
  let ?five = "''hospital-screen-5''"
  have key: "truthy (JStr k)"
    using assms by (rule registry_ok_key)
  have look: "map_get (deviceStatus s) (JStr k) = Some d"
    using assms(2) by (simp add: map_get_def)
  have running: "get_task rt s (JStr k) =
      (Inr (res_json 200 403 (Some (DeviceBusy (JStr k) Running)) None), s)"
    if "truthy (isBusy d)"
  proof -
    from that have "busy_or_over rt d = Inr True"
      by (simp add: busy_or_over_def)
    from get_task_busy [OF key look this] that show ?thesis
      by simp
  qed
  have over: "get_task rt s (JStr k) =
      (Inr (res_json 200 403 (Some (DeviceBusy (JStr k) MemoryTooHigh)) None), s)"
    if "\<not> truthy (isBusy d)" "js_gt rt (memory d) (Finite 350) = Inr True"
  proof -
    from that have "busy_or_over rt d = Inr True"
      by (simp add: busy_or_over_def)
    from get_task_busy [OF key look this] that show ?thesis
      by simp
  qed
  have typed_busy: "truthy (isBusy d)" if "isBusy d = JBool True"
    using that by simp
  have typed_over: "\<not> truthy (isBusy d) \<and> js_gt rt (memory d) (Finite 350) = Inr True"
    if "isBusy d = JBool False" "memory d = JNum m" "num_less (Finite 350) m" for m
    using that by (simp add: js_gt_def)
  have five: "?five \<in> dom (deviceStatus s)"
    using assms(1) by (rule screen5_provisioned)
  have acc: "report_status s (JStr ?five) b m =
               (res_json 200 200 (Some StatusUpdated) None, with_record s ?five b m)"
    if "b \<noteq> JUndefined" "m \<noteq> JUndefined" for b m
    using report_status_accepted [OF _ that five] by simp
  have tk: "truthy (JStr ?five)"
    by simp
  have lk: "map_get (deviceStatus (with_record s ?five b m)) (JStr ?five)
              = Some \<lparr>isBusy = b, memory = m\<rparr>" for b m
    by (simp add: map_get_def with_record_lookup)
  have sc1: "get_task rt (with_record s ?five (JBool True) (JNum (Finite 120))) (JStr ?five) =
      (Inr (res_json 200 403 (Some (DeviceBusy (JStr ?five) Running)) None),
       with_record s ?five (JBool True) (JNum (Finite 120)))"
    using get_task_busy [OF tk lk, of rt "JBool True" "JNum (Finite 120)"]
    by (simp add: busy_or_over_typed)
  have sc2: "get_task rt (with_record s ?five (JBool False) (JNum (Finite 360))) (JStr ?five) =
      (Inr (res_json 200 403 (Some (DeviceBusy (JStr ?five) MemoryTooHigh)) None),
       with_record s ?five (JBool False) (JNum (Finite 360)))"
    using get_task_busy [OF tk lk, of rt "JBool False" "JNum (Finite 360)"]
    by (simp add: busy_or_over_typed)
  have r1: "report_status s (JStr ?five) (JBool True) (JNum (Finite 120)) =
      (res_json 200 200 (Some StatusUpdated) None,
       with_record s ?five (JBool True) (JNum (Finite 120)))"
    by (rule acc) simp_all
  have r2: "report_status s (JStr ?five) (JBool False) (JNum (Finite 360)) =
      (res_json 200 200 (Some StatusUpdated) None,
       with_record s ?five (JBool False) (JNum (Finite 360)))"
    by (rule acc) simp_all
  show ?thesis
    using running over typed_busy typed_over sc1 sc2 by (simp add: r1 r2)
qed

theorem busy_reason_policy_witness:
  "registry_ok fleet0
   \<and> deviceStatus fleet0 ''hospital-screen-5'' = Some idle_device
   \<and> report_status fleet0 (JStr ''hospital-screen-5'') (JBool True) (JNum (Finite 120))
       = (res_json 200 200 (Some StatusUpdated) None, busy5)
   \<and> get_task rt0 busy5 (JStr ''hospital-screen-5'') =
       (Inr (res_json 200 403
              (Some (DeviceBusy (JStr ''hospital-screen-5'') Running)) None), busy5)
   \<and> report_status fleet0 (JStr ''hospital-screen-5'') (JBool False) (JNum (Finite 360))
       = (res_json 200 200 (Some StatusUpdated) None, over5)
   \<and> get_task rt0 over5 (JStr ''hospital-screen-5'') =
       (Inr (res_json 200 403
              (Some (DeviceBusy (JStr ''hospital-screen-5'') MemoryTooHigh)) None), over5)"
proof -
  have l: "deviceStatus fleet0 ''hospital-screen-5'' = Some idle_device"
    by (simp add: fleet0_def server_init_def screen5_init)
  have r1: "report_status fleet0 (JStr ''hospital-screen-5'') (JBool True) (JNum (Finite 120))
       = (res_json 200 200 (Some StatusUpdated) None, busy5)"
    unfolding busy5_def by (rule report_status_accepted [OF _ _ _ screen5_fleet0]) simp_all
  have r2: "report_status fleet0 (JStr ''hospital-screen-5'') (JBool False) (JNum (Finite 360))
       = (res_json 200 200 (Some StatusUpdated) None, over5)"
    unfolding over5_def by (rule report_status_accepted [OF _ _ _ screen5_fleet0]) simp_all
  have b: "deviceStatus busy5 ''hospital-screen-5'' =
             Some \<lparr>isBusy = JBool True, memory = JNum (Finite 120)\<rparr>"
    unfolding busy5_def by (rule with_record_lookup)
  have c: "deviceStatus over5 ''hospital-screen-5'' =
             Some \<lparr>isBusy = JBool False, memory = JNum (Finite 360)\<rparr>"
    unfolding over5_def by (rule with_record_lookup)
  from busy_reason_policy [OF registry_ok_busy5 b, of rt0]
  have g1: "get_task rt0 busy5 (JStr ''hospital-screen-5'') =
       (Inr (res_json 200 403
              (Some (DeviceBusy (JStr ''hospital-screen-5'') Running)) None), busy5)"
    by simp
  from busy_reason_policy [OF registry_ok_over5 c, of rt0]
  have g2: "get_task rt0 over5 (JStr ''hospital-screen-5'') =
       (Inr (res_json 200 403
              (Some (DeviceBusy (JStr ''hospital-screen-5'') MemoryTooHigh)) None), over5)"
    by simp
  from busy_reason_policy [OF registry_ok_fleet0 l, of rt0] r1 r2 g1 g2 registry_ok_fleet0 l
  show ?thesis
    by simp
qed

subsection \<open>HTTP status and body code\<close>

text \<open>
  C4, as amended. \<^verbatim>\<open>GET /get-task\<close> sets the HTTP status only on its two error
  answers: 400 when \<open>deviceId\<close> is missing and 404 when the device is unknown, the body's
  \<open>code\<close> being the same number. Every other answer goes out with \<^verbatim>\<open>res.json\<close> alone,
  hence with HTTP status 200, and is told apart by the body's \<open>code\<close>: 403 when the
  device is busy or over the memory ceiling, 200 with the task on assignment, 204 when
  the queue is empty. So a response's status is its body code if that is 400 or 404, and
  200 otherwise.
\<close>

theorem get_task_http_status:
  "(\<not> truthy q \<longrightarrow>
      fst (get_task rt s q) = Inr (res_json 400 400 (Some MissingDeviceId) None))
   \<and> (truthy q \<and> map_get (deviceStatus s) q = None \<longrightarrow>
      fst (get_task rt s q) = Inr (res_json 404 404 (Some DeviceIdUnknown) None))
   \<and> (\<forall>d. truthy q \<and> map_get (deviceStatus s) q = Some d \<and> busy_or_over rt d = Inr True \<longrightarrow>
        http_status (fst (get_task rt s q)) = Some 200
        \<and> body_code (fst (get_task rt s q)) = Some 403)
   \<and> (\<forall>d t ts. truthy q \<and> map_get (deviceStatus s) q = Some d
         \<and> busy_or_over rt d = Inr False \<and> guideTaskQueue s = t # ts \<longrightarrow>
        fst (get_task rt s q) = Inr (res_json 200 200 None (Some t)))
   \<and> (\<forall>d. truthy q \<and> map_get (deviceStatus s) q = Some d
         \<and> busy_or_over rt d = Inr False \<and> guideTaskQueue s = [] \<longrightarrow>
        fst (get_task rt s q) = Inr (res_json 200 204 (Some NoPendingTask) None))
   \<and> (\<forall>r. fst (get_task rt s q) = Inr r \<longrightarrow>
        code r \<in> {400, 404, 403, 200, 204}
        \<and> status r = (if code r = 400 \<or> code r = 404 then code r else 200))"
proof (cases rule: get_task_cases [where q = q and s = s and rt = rt])
  case missing
  then show ?thesis
    by (simp add: get_task_missing res_json_def)
next
  case unknown
  then show ?thesis
    by (simp add: get_task_unknown res_json_def)
next
  case (throws d e)
  then show ?thesis
    by (simp add: get_task_throws)
next
  case (busy d)
  then show ?thesis
    by (simp add: get_task_busy res_json_def http_status_def body_code_def)
next
  case (assign d t ts)
  then show ?thesis
    by (simp add: get_task_assign res_json_def)
next
  case (empty d)
  then show ?thesis
    by (simp add: get_task_empty res_json_def)
qed

theorem get_task_http_status_witness:
  "http_status (fst (get_task rt0 fleet0 (JStr []))) = Some 400
   \<and> http_status (fst (get_task rt0 fleet0 (JStr ''hospital-screen-20''))) = Some 404
   \<and> http_status (fst (get_task rt0 busy5 (JStr ''hospital-screen-5''))) = Some 200
   \<and> body_code (fst (get_task rt0 busy5 (JStr ''hospital-screen-5''))) = Some 403
   \<and> fst (get_task rt0 idle5 (JStr ''hospital-screen-5'')) =
       Inr (res_json 200 200 None
             (Some \<lparr>content = ''T1'', picUrl = ''https://your-server/department-map-1.png''\<rparr>))"
proof -
  let ?five = "JStr ''hospital-screen-5''"
  have u: "map_get (deviceStatus fleet0) (JStr ''hospital-screen-20'') = None"
    by (simp add: map_get_def fleet0_def server_init_def screen20_init)
  have b: "map_get (deviceStatus busy5) ?five =
             Some \<lparr>isBusy = JBool True, memory = JNum (Finite 120)\<rparr>"
    unfolding busy5_def by (simp add: map_get_def with_record_lookup)
  have i: "map_get (deviceStatus idle5) ?five =
             Some \<lparr>isBusy = JBool False, memory = JNum (Finite 100)\<rparr>"
    unfolding idle5_def by (simp add: map_get_def with_record_lookup)
  have q: "guideTaskQueue idle5 =
     \<lparr>content = ''T1'', picUrl = ''https://your-server/department-map-1.png''\<rparr> #
     [\<lparr>content = ''T2'', picUrl = ''https://your-server/registration-guide.png''\<rparr>,
      \<lparr>content = ''T3'', picUrl = ''https://your-server/pharmacy-location.png''\<rparr>]"
    unfolding idle5_def by (simp only: with_record_queue fleet0_queue)
  from get_task_http_status [where q = "JStr []" and rt = rt0 and s = fleet0]
  have 1: "http_status (fst (get_task rt0 fleet0 (JStr []))) = Some 400"
    by (simp add: http_status_def res_json_def)
  from get_task_http_status [where q = "JStr ''hospital-screen-20''" and rt = rt0 and s = fleet0] u
  have 2: "http_status (fst (get_task rt0 fleet0 (JStr ''hospital-screen-20''))) = Some 404"
    by (simp add: http_status_def res_json_def)
  from get_task_http_status [where q = ?five and rt = rt0 and s = busy5] b
  have 3: "http_status (fst (get_task rt0 busy5 ?five)) = Some 200
           \<and> body_code (fst (get_task rt0 busy5 ?five)) = Some 403"
    by (simp add: busy_or_over_typed)
  from get_task_http_status [where q = ?five and rt = rt0 and s = idle5] i q
  have 4: "fst (get_task rt0 idle5 ?five) =
       Inr (res_json 200 200 None
             (Some \<lparr>content = ''T1'', picUrl = ''https://your-server/department-map-1.png''\<rparr>))"
    by (simp add: busy_or_over_typed)
  from 1 2 3 4 show ?thesis
    by blast
qed

text \<open>
  The status codes 403 and 204 that the specification lists for the Busy and the
  empty-queue answers are not the ones sent: a busy device is answered with HTTP status
  200 and body code 403, and an eligible device facing an empty queue with HTTP status
  200 and body code 204.
\<close>

theorem get_task_http_status_counterexample:
  "http_status (fst (get_task rt0 busy5 (JStr ''hospital-screen-5''))) = Some 200
   \<and> body_code (fst (get_task rt0 busy5 (JStr ''hospital-screen-5''))) = Some 403
   \<and> http_status (fst (get_task rt0 (idle5\<lparr>guideTaskQueue := []\<rparr>) (JStr ''hospital-screen-5'')))
       = Some 200
   \<and> body_code (fst (get_task rt0 (idle5\<lparr>guideTaskQueue := []\<rparr>) (JStr ''hospital-screen-5'')))
       = Some 204"
  by (simp add: get_task_def map_get_def busy5_def idle5_def with_record_def
      busy_or_over_def js_gt_def http_status_def body_code_def res_json_def)

subsection \<open>Reports for unknown devices\<close>

lemma screen20_fleet0: "deviceStatus fleet0 ''hospital-screen-20'' = None"
  by (simp add: fleet0_def server_init_def screen20_init)

lemma not_provisioned_lookup:
  assumes "registry_ok s" and "deviceId \<notin> JStr ` dom deviceStatus_init"
  shows "map_get (deviceStatus s) deviceId = None"
proof (cases deviceId)
  case (JStr k)
  with assms have "k \<notin> dom (deviceStatus s)"
    by (auto simp: registry_ok_def)
  with JStr show ?thesis
    by (auto simp: map_get_def)
qed (simp_all add: map_get_def)

text \<open>
  C5, as amended. A report whose \<open>deviceId\<close> is outside the provisioned set never changes
  the state: no record is created, none is modified. It is answered UnknownDevice
  (404) when it passes the presence check that comes first, that is, when \<open>deviceId\<close> is
  not falsy and both \<open>isBusy\<close> and \<open>memory\<close> are present; otherwise it is answered
  BadRequest (400).
\<close>

theorem report_status_unknown_device:
  assumes "registry_ok s" and "deviceId \<notin> JStr ` dom deviceStatus_init"
  shows "snd (report_status s deviceId b m) = s
       \<and> (truthy deviceId \<and> b \<noteq> JUndefined \<and> m \<noteq> JUndefined \<longrightarrow>
            fst (report_status s deviceId b m)
              = res_json 404 404 (Some DeviceIdOutOfRange) None)
       \<and> (\<not> truthy deviceId \<or> b = JUndefined \<or> m = JUndefined \<longrightarrow>
            fst (report_status s deviceId b m)
              = res_json 400 400 (Some ParamsIncomplete) None)"
proof -
  have none: "map_get (deviceStatus s) deviceId = None"
    using assms by (rule not_provisioned_lookup)
  show ?thesis
  proof (cases "\<not> truthy deviceId \<or> b = JUndefined \<or> m = JUndefined")
    case True
    then have "report_status s deviceId b m
                 = (res_json 400 400 (Some ParamsIncomplete) None, s)"
      by (rule report_status_incomplete)
    with True show ?thesis
      by auto
  next
    case False
    then have "report_status s deviceId b m
                 = (res_json 404 404 (Some DeviceIdOutOfRange) None, s)"
      using none by (simp add: report_status_unknown)
    with False show ?thesis
      by auto
  qed
qed

theorem report_status_unknown_device_witness:
  "registry_ok fleet0
   \<and> JStr ''hospital-screen-20'' \<notin> JStr ` dom deviceStatus_init
   \<and> report_status fleet0 (JStr ''hospital-screen-20'') (JBool False) (JNum (Finite 300))
       = (res_json 404 404 (Some DeviceIdOutOfRange) None, fleet0)"
proof -
  have out: "JStr ''hospital-screen-20'' \<notin> JStr ` dom deviceStatus_init"
    using screen20_init by auto
  from report_status_unknown_device [OF registry_ok_fleet0 out,
      of "JBool False" "JNum (Finite 300)"]
  have "report_status fleet0 (JStr ''hospital-screen-20'') (JBool False) (JNum (Finite 300))
       = (res_json 404 404 (Some DeviceIdOutOfRange) None, fleet0)"
    by (simp add: prod_eq_iff)
  with registry_ok_fleet0 out show ?thesis
    by blast
qed

text \<open>
  An unknown identifier is not always answered 404: the report of the unprovisioned
  \<^verbatim>\<open>hospital-screen-20\<close> that lacks \<open>memory\<close> is answered 400, and so is the report
  whose \<open>deviceId\<close> is the empty string.
\<close>

theorem report_status_unknown_device_counterexample:
  "deviceStatus fleet0 ''hospital-screen-20'' = None
   \<and> code (fst (report_status fleet0 (JStr ''hospital-screen-20'') (JBool False) JUndefined))
       = 400
   \<and> deviceStatus fleet0 [] = None
   \<and> code (fst (report_status fleet0 (JStr []) (JBool False) (JNum (Finite 0)))) = 400"
proof -
  have "deviceStatus fleet0 [] = None"
    using provisioned_nonempty [of "[]"] by (auto simp: fleet0_def server_init_def)
  then show ?thesis
    by (simp add: screen20_fleet0 report_status_def res_json_def)
qed

subsection \<open>What a report is checked for\<close>

text \<open>
  C6, as amended. A report is rejected as BadRequest exactly when \<open>deviceId\<close> is falsy or
  \<open>isBusy\<close> or \<open>memory\<close> is absent, and a rejected report changes nothing. The handler
  checks presence only: for a provisioned device, a report whose fields are present is
  accepted whatever their types, and the record is overwritten with the values as
  given.
\<close>

theorem report_status_validation:
  "(code (fst (report_status s deviceId b m)) = 400
      \<longleftrightarrow> \<not> truthy deviceId \<or> b = JUndefined \<or> m = JUndefined)
   \<and> (code (fst (report_status s deviceId b m)) = 400 \<longrightarrow>
        report_status s deviceId b m = (res_json 400 400 (Some ParamsIncomplete) None, s))
   \<and> (\<forall>k. deviceId = JStr k \<and> k \<noteq> [] \<and> k \<in> dom (deviceStatus s)
          \<and> b \<noteq> JUndefined \<and> m \<noteq> JUndefined \<longrightarrow>
        report_status s deviceId b m
          = (res_json 200 200 (Some StatusUpdated) None, with_record s k b m)
        \<and> deviceStatus (snd (report_status s deviceId b m)) k
          = Some \<lparr>isBusy = b, memory = m\<rparr>)"
proof -
  have 1: "code (fst (report_status s deviceId b m)) = 400
      \<longleftrightarrow> \<not> truthy deviceId \<or> b = JUndefined \<or> m = JUndefined"
    by (simp add: report_status_def res_json_def)
  have 2: "report_status s deviceId b m = (res_json 400 400 (Some ParamsIncomplete) None, s)"
    if "code (fst (report_status s deviceId b m)) = 400"
    using that 1 by (simp add: report_status_incomplete)
  have 3: "report_status s deviceId b m
          = (res_json 200 200 (Some StatusUpdated) None, with_record s k b m)
        \<and> deviceStatus (snd (report_status s deviceId b m)) k
          = Some \<lparr>isBusy = b, memory = m\<rparr>"
    if "deviceId = JStr k" "k \<noteq> []" "k \<in> dom (deviceStatus s)"
      "b \<noteq> JUndefined" "m \<noteq> JUndefined" for k
    using report_status_accepted [OF that(2,4,5,3)] that(1)
    by (simp add: with_record_lookup)
  from 1 2 3 show ?thesis
    by blast
qed

theorem report_status_validation_witness:
  "report_status fleet0 (JStr ''hospital-screen-5'') JUndefined (JNum (Finite 300))
     = (res_json 400 400 (Some ParamsIncomplete) None, fleet0)
   \<and> report_status fleet0 (JStr ''hospital-screen-5'') (JBool True) (JNum (Finite 120))
     = (res_json 200 200 (Some StatusUpdated) None, busy5)"
proof -
  let ?five = "JStr ''hospital-screen-5''"
  from report_status_validation [of fleet0 ?five JUndefined "JNum (Finite 300)"]
  have 1: "report_status fleet0 ?five JUndefined (JNum (Finite 300))
     = (res_json 400 400 (Some ParamsIncomplete) None, fleet0)"
    by simp
  from report_status_validation [of fleet0 ?five "JBool True" "JNum (Finite 120)"]
    screen5_fleet0
  have 2: "report_status fleet0 ?five (JBool True) (JNum (Finite 120))
     = (res_json 200 200 (Some StatusUpdated) None, busy5)"
    by (simp add: busy5_def)
  from 1 2 show ?thesis
    by blast
qed

text \<open>
  A field of the wrong type is not rejected: the report of \<^verbatim>\<open>hospital-screen-5\<close> whose
  \<open>isBusy\<close> is the string \<^verbatim>\<open>yes\<close> is answered 200 and the string is stored in the record.
\<close>

theorem report_status_validation_counterexample:
  "code (fst (report_status fleet0 (JStr ''hospital-screen-5'') (JStr ''yes'')
               (JNum (Finite 100)))) = 200
   \<and> deviceStatus (snd (report_status fleet0 (JStr ''hospital-screen-5'') (JStr ''yes'')
                          (JNum (Finite 100)))) ''hospital-screen-5''
       = Some \<lparr>isBusy = JStr ''yes'', memory = JNum (Finite 100)\<rparr>
   \<and> deviceStatus fleet0 ''hospital-screen-5''
       = Some \<lparr>isBusy = JBool False, memory = JNum (Finite 0)\<rparr>"
proof -
  have l: "deviceStatus fleet0 ''hospital-screen-5''
             = Some \<lparr>isBusy = JBool False, memory = JNum (Finite 0)\<rparr>"
    by (simp add: fleet0_def server_init_def screen5_init idle_device_def)
  then show ?thesis
    by (simp add: report_status_def map_has_def map_get_def map_set_def res_json_def)
qed

subsection \<open>What \<^verbatim>\<open>GET /get-task\<close> leaves alone\<close>

text \<open>
  C9. \<^verbatim>\<open>GET /get-task\<close> never changes a device record, whatever the input and the
  state. It takes a task off the queue if and only if it answers with body code 200, and
  then the task taken is the head of the queue and is the one in the response. On every
  other outcome (body code 400, 404, 403 or 204, or an exception) the whole state is the
  one before the call.
\<close>

theorem get_task_frame:
  "deviceStatus (snd (get_task rt s q)) = deviceStatus s
   \<and> (guideTaskQueue (snd (get_task rt s q)) \<noteq> guideTaskQueue s
        \<longleftrightarrow> body_code (fst (get_task rt s q)) = Some 200)
   \<and> (\<forall>r. fst (get_task rt s q) = Inr r \<and> code r = 200 \<longrightarrow>
        (\<exists>t. task r = Some t \<and> guideTaskQueue s = t # guideTaskQueue (snd (get_task rt s q))))
   \<and> (body_code (fst (get_task rt s q)) \<noteq> Some 200 \<longrightarrow> snd (get_task rt s q) = s)
   \<and> (\<forall>r. fst (get_task rt s q) = Inr r \<longrightarrow> code r \<in> {400, 404, 403, 200, 204})"
proof (cases rule: get_task_cases [where q = q and s = s and rt = rt])
  case missing
  then show ?thesis
    by (simp add: get_task_missing res_json_def body_code_def)
next
  case unknown
  then show ?thesis
    by (simp add: get_task_unknown res_json_def body_code_def)
next
  case (throws d e)
  then show ?thesis
    by (simp add: get_task_throws body_code_def)
next
  case (busy d)
  then show ?thesis
    by (simp add: get_task_busy res_json_def body_code_def)
next
  case (assign d t ts)
  then show ?thesis
    by (simp add: get_task_assign res_json_def body_code_def)
next
  case (empty d)
  then show ?thesis
    by (simp add: get_task_empty res_json_def body_code_def)
qed

theorem get_task_frame_witness:
  "deviceStatus (snd (get_task rt0 idle5 (JStr ''hospital-screen-5''))) = deviceStatus idle5
   \<and> body_code (fst (get_task rt0 idle5 (JStr ''hospital-screen-5''))) = Some 200
   \<and> guideTaskQueue idle5 =
       \<lparr>content = ''T1'', picUrl = ''https://your-server/department-map-1.png''\<rparr>
         # guideTaskQueue (snd (get_task rt0 idle5 (JStr ''hospital-screen-5'')))
   \<and> body_code (fst (get_task rt0 busy5 (JStr ''hospital-screen-5''))) = Some 403
   \<and> snd (get_task rt0 busy5 (JStr ''hospital-screen-5'')) = busy5"
proof -
  let ?five = "JStr ''hospital-screen-5''"
  have g: "get_task rt0 idle5 ?five =
     (Inr (res_json 200 200 None
            (Some \<lparr>content = ''T1'', picUrl = ''https://your-server/department-map-1.png''\<rparr>)),
      idle5\<lparr>guideTaskQueue :=
        [\<lparr>content = ''T2'', picUrl = ''https://your-server/registration-guide.png''\<rparr>,
         \<lparr>content = ''T3'', picUrl = ''https://your-server/pharmacy-location.png''\<rparr>]\<rparr>)"
    using fleet0_queue
    by (simp add: get_task_def map_get_def idle5_def with_record_def busy_or_over_def js_gt_def)
  have h: "fst (get_task rt0 busy5 ?five) =
     Inr (res_json 200 403 (Some (DeviceBusy ?five Running)) None)"
    by (simp add: get_task_def map_get_def busy5_def with_record_def busy_or_over_def)
  from get_task_frame [of rt0 idle5 ?five] g
  have 1: "deviceStatus (snd (get_task rt0 idle5 ?five)) = deviceStatus idle5
     \<and> body_code (fst (get_task rt0 idle5 ?five)) = Some 200
     \<and> guideTaskQueue idle5 =
       \<lparr>content = ''T1'', picUrl = ''https://your-server/department-map-1.png''\<rparr>
         # guideTaskQueue (snd (get_task rt0 idle5 ?five))"
    by (simp add: res_json_def body_code_def)
  from get_task_frame [of rt0 busy5 ?five] h
  have 2: "body_code (fst (get_task rt0 busy5 ?five)) = Some 403
     \<and> snd (get_task rt0 busy5 ?five) = busy5"
    by (simp add: res_json_def body_code_def)
  from 1 2 show ?thesis
    by blast
qed

subsection \<open>The empty identifier\<close>

text \<open>
  C10. A \<open>deviceId\<close> that is present but is the empty string is falsy, so both handlers
  answer BadRequest (400, missing parameter) and not UnknownDevice (404), in every state
  and whatever the other fields are, before any lookup in the registry; the state is
  unchanged.
\<close>

theorem empty_deviceId_is_bad_request:
  "report_status s (JStr []) b m = (res_json 400 400 (Some ParamsIncomplete) None, s)
   \<and> get_task rt s (JStr []) = (Inr (res_json 400 400 (Some MissingDeviceId) None), s)
   \<and> status (res_json 400 400 (Some ParamsIncomplete) None) = 400
   \<and> status (res_json 400 400 (Some MissingDeviceId) None) = 400"
  by (simp add: report_status_def get_task_def res_json_def)

theorem empty_deviceId_is_bad_request_witness:
  "report_status busy5 (JStr []) (JBool False) (JNum (Finite 300))
     = (res_json 400 400 (Some ParamsIncomplete) None, busy5)
   \<and> get_task rt0 busy5 (JStr []) = (Inr (res_json 400 400 (Some MissingDeviceId) None), busy5)"
  using empty_deviceId_is_bad_request [of busy5 "JBool False" "JNum (Finite 300)" rt0]
  by simp

section \<open>Properties of the device side\<close>

subsection \<open>The local clock of a zone with a fixed offset\<close>

lemma local_fixed_offset:
  shows local_day_fixed: "local_day (fixed_offset tz) t = (t + tz) div msPerDay"
    and local_time_fixed: "local_time (fixed_offset tz) t = (t + tz) mod msPerDay"
  by (simp_all add: local_day_def local_time_def Day_def TimeWithinDay_def fixed_offset_def)

lemma split_local:
  "t + tz = local_day (fixed_offset tz) t * msPerDay + local_time (fixed_offset tz) t"
  by (simp add: local_fixed_offset)

lemma local_time_range:
  "0 \<le> local_time (fixed_offset tz) t" "local_time (fixed_offset tz) t < msPerDay"
  by (simp_all add: local_time_fixed msPerDay_def)

lemma two_oclock_range: "0 \<le> 2 * msPerHour" "2 * msPerHour < msPerDay"
  by (simp_all add: msPerHour_def msPerDay_def)

lemma setHours2_fixed:
  "setHours2 (fixed_offset tz) t = t - local_time (fixed_offset tz) t + 2 * msPerHour"
proof -
  have "setHours2 (fixed_offset tz) t
          = local_day (fixed_offset tz) t * msPerDay + 2 * msPerHour - tz"
    by (simp add: setHours2_def MakeDate_def local_day_def fixed_offset_def)
  with split_local [of t tz] show ?thesis
    by simp
qed

text \<open>With a fixed offset the next local day is 24 hours away.\<close>

lemma setDateNext_fixed: "setDateNext (fixed_offset tz) t = t + msPerDay"
proof -
  have "setDateNext (fixed_offset tz) t
          = (local_day (fixed_offset tz) t + 1) * msPerDay
              + local_time (fixed_offset tz) t - tz"
    by (simp add: setDateNext_def MakeDate_def local_day_def local_time_def fixed_offset_def)
  with split_local [of t tz] show ?thesis
    by (simp add: algebra_simps)
qed

text \<open>The target in terms of the local time of day of \<open>now\<close>.\<close>

lemma resetTime_eq:
  "resetTime (fixed_offset tz) now =
     (if local_time (fixed_offset tz) now \<le> 2 * msPerHour
      then now + (2 * msPerHour - local_time (fixed_offset tz) now)
      else now + (msPerDay + (2 * msPerHour - local_time (fixed_offset tz) now)))"
  by (simp add: resetTime_def setHours2_fixed setDateNext_fixed Let_def)

lemma local_time_shift:
  assumes "0 \<le> local_time (fixed_offset tz) t + d"
    and "local_time (fixed_offset tz) t + d < msPerDay"
  shows "local_time (fixed_offset tz) (t + d) = local_time (fixed_offset tz) t + d"
    and "local_day (fixed_offset tz) (t + d) = local_day (fixed_offset tz) t"
proof -
  let ?z = "fixed_offset tz"
  have e: "t + d + tz = local_day ?z t * msPerDay + (local_time ?z t + d)"
    using split_local [of t tz] by simp
  show "local_time ?z (t + d) = local_time ?z t + d"
    unfolding local_time_fixed [of tz "t + d"] e using assms
    by (simp add: mod_pos_pos_trivial)
  show "local_day ?z (t + d) = local_day ?z t"
    unfolding local_day_fixed [of tz "t + d"] e using assms
    by (simp add: div_pos_pos_trivial msPerDay_def)
qed

lemma local_time_next_day:
  assumes "0 \<le> local_time (fixed_offset tz) t + d"
    and "local_time (fixed_offset tz) t + d < msPerDay"
  shows "local_time (fixed_offset tz) (t + (msPerDay + d))
           = local_time (fixed_offset tz) t + d"
    and "local_day (fixed_offset tz) (t + (msPerDay + d))
           = local_day (fixed_offset tz) t + 1"
proof -
  let ?z = "fixed_offset tz"
  have e: "t + (msPerDay + d) + tz
             = (local_day ?z t + 1) * msPerDay + (local_time ?z t + d)"
    using split_local [of t tz] by (simp add: algebra_simps)
  show "local_time ?z (t + (msPerDay + d)) = local_time ?z t + d"
    unfolding local_time_fixed [of tz "t + (msPerDay + d)"] e using assms
    by (simp add: mod_pos_pos_trivial)
  show "local_day ?z (t + (msPerDay + d)) = local_day ?z t + 1"
    unfolding local_day_fixed [of tz "t + (msPerDay + d)"] e using assms
    by (simp add: div_pos_pos_trivial msPerDay_def)
qed

lemma resetTime_props:
  shows resetTime_at_two:
      "local_time (fixed_offset tz) (resetTime (fixed_offset tz) now) = 2 * msPerHour"
    and resetTime_day:
      "local_day (fixed_offset tz) (resetTime (fixed_offset tz) now) =
          (if local_time (fixed_offset tz) now \<le> 2 * msPerHour
           then local_day (fixed_offset tz) now
           else local_day (fixed_offset tz) now + 1)"
    and resetTime_ge: "now \<le> resetTime (fixed_offset tz) now"
    and resetTime_within_day: "resetTime (fixed_offset tz) now < now + msPerDay"
    and resetTime_fixed:
      "(resetTime (fixed_offset tz) now = now)
         = (local_time (fixed_offset tz) now = 2 * msPerHour)"
proof -
  let ?z = "fixed_offset tz"
  let ?d = "2 * msPerHour - local_time ?z now"
  have d: "0 \<le> local_time ?z now + ?d" "local_time ?z now + ?d < msPerDay"
    using two_oclock_range by simp_all
  note same = local_time_shift [OF d] and nxt = local_time_next_day [OF d]
  note rng = local_time_range [of tz now]
  show "local_time ?z (resetTime ?z now) = 2 * msPerHour"
    using same(1) nxt(1) by (simp add: resetTime_eq)
  show "local_day ?z (resetTime ?z now) =
          (if local_time ?z now \<le> 2 * msPerHour then local_day ?z now
           else local_day ?z now + 1)"
    using same(2) nxt(2) by (simp add: resetTime_eq)
  show "now \<le> resetTime ?z now"
    using rng two_oclock_range by (simp add: resetTime_eq)
  show "resetTime ?z now < now + msPerDay"
    using rng two_oclock_range by (simp add: resetTime_eq)
  show "(resetTime ?z now = now) = (local_time ?z now = 2 * msPerHour)"
    using rng two_oclock_range by (auto simp add: resetTime_eq)
qed

text \<open>No 02:00 lies between \<open>now\<close> and the target.\<close>

lemma resetTime_least:
  assumes "now \<le> t" and "local_time (fixed_offset tz) t = 2 * msPerHour"
  shows "resetTime (fixed_offset tz) now \<le> t"
proof (rule ccontr)
  let ?z = "fixed_offset tz"
  let ?r = "resetTime ?z now"
  define k where "k = local_day ?z ?r - local_day ?z t"
  assume "\<not> ?r \<le> t"
  then have lt: "t < ?r"
    by simp
  have "?r + tz = local_day ?z ?r * msPerDay + 2 * msPerHour"
    using split_local [of ?r tz] by (simp add: resetTime_at_two)
  moreover have "t + tz = local_day ?z t * msPerDay + 2 * msPerHour"
    using split_local [of t tz] assms(2) by simp
  ultimately have d: "?r - t = k * msPerDay"
    by (simp add: k_def algebra_simps)
  have D: "0 < msPerDay"
    by (simp add: msPerDay_def)
  from lt d have "0 < k * msPerDay"
    by simp
  with D have "1 \<le> k"
    by (simp add: zero_less_mult_iff)
  with D have "1 * msPerDay \<le> k * msPerDay"
    by (intro mult_right_mono) simp_all
  with d have "now + msPerDay \<le> ?r"
    using assms(1) by simp
  with resetTime_within_day [of tz now] show False
    by simp
qed

subsection \<open>The same computation across a daylight-saving transition\<close>

text \<open>
  At noon of 2 November 2024 in New York (16:00 UTC) today's 02:00 is past, and the
  target is 02:00 of 3 November, a day of 25 hours: 38 hours ahead, at 07:00 UTC.
\<close>

lemma resetTime_new_york_autumn:
  "resetTime new_york_2024 1730563200000 = 1730617200000"
  by (simp add: resetTime_def setHours2_def setDateNext_def new_york_2024_def MakeDate_def
      Day_def TimeWithinDay_def msPerDay_def msPerHour_def Let_def)

text \<open>
  At 00:30 of 10 March 2024 in New York (05:30 UTC) the local time 02:00 of that day
  does not exist. The target is 07:00 UTC, whose local time of day is 03:00.
\<close>

lemma resetTime_new_york_spring:
  "resetTime new_york_2024 1710048600000 = 1710054000000
   \<and> local_time new_york_2024 1710054000000 = 3 * msPerHour"
  by (simp add: resetTime_def setHours2_def setDateNext_def new_york_2024_def MakeDate_def
      local_time_def Day_def TimeWithinDay_def msPerDay_def msPerHour_def Let_def)

subsection \<open>The target of the daily reset\<close>

text \<open>
  C7, as amended. In a time zone with a fixed UTC offset (no daylight-saving
  transition), the target is the next occurrence of 02:00 local time at or after now:
  it is at 02:00 local time, it is not before now, and no 02:00 lies between the two. It
  is strictly after now unless now is exactly 02:00:00.000, where the target is now
  itself. At 01:00 the target is one hour later, 02:00 of the same local day; at 03:00
  it is 23 hours later, 02:00 of the next local day. The timer is registered with the
  difference between target and now as its delay.
\<close>

theorem resetTime_next_occurrence:
  "local_time (fixed_offset tz) (resetTime (fixed_offset tz) now) = 2 * msPerHour
   \<and> now \<le> resetTime (fixed_offset tz) now
   \<and> (\<forall>t. now \<le> t \<and> local_time (fixed_offset tz) t = 2 * msPerHour \<longrightarrow>
        resetTime (fixed_offset tz) now \<le> t)
   \<and> (local_time (fixed_offset tz) now \<noteq> 2 * msPerHour \<longrightarrow>
        now < resetTime (fixed_offset tz) now)
   \<and> (local_time (fixed_offset tz) now = 2 * msPerHour \<longrightarrow>
        resetTime (fixed_offset tz) now = now)
   \<and> (local_time (fixed_offset tz) now = 1 * msPerHour \<longrightarrow>
        resetTime (fixed_offset tz) now = now + 1 * msPerHour
        \<and> local_day (fixed_offset tz) (resetTime (fixed_offset tz) now)
            = local_day (fixed_offset tz) now)
   \<and> (local_time (fixed_offset tz) now = 3 * msPerHour \<longrightarrow>
        resetTime (fixed_offset tz) now = now + 23 * msPerHour
        \<and> local_day (fixed_offset tz) (resetTime (fixed_offset tz) now)
            = local_day (fixed_offset tz) now + 1)
   \<and> timeouts (scheduleDailyReset (fixed_offset tz) now w)
        = timeouts w
            @ [\<lparr>callback = DailyReset, delay = resetTime (fixed_offset tz) now - now\<rparr>]"
proof -
  let ?z = "fixed_offset tz"
  have strict: "now < resetTime ?z now" if "local_time ?z now \<noteq> 2 * msPerHour"
    using that resetTime_ge [of now tz] resetTime_fixed [of tz now] by simp
  have fixed: "resetTime ?z now = now" if "local_time ?z now = 2 * msPerHour"
    using that by (simp add: resetTime_fixed)
  have one: "resetTime ?z now = now + 1 * msPerHour
             \<and> local_day ?z (resetTime ?z now) = local_day ?z now"
    if "local_time ?z now = 1 * msPerHour"
    using that by (simp add: resetTime_day) (simp add: resetTime_eq msPerHour_def)
  have three: "resetTime ?z now = now + 23 * msPerHour
               \<and> local_day ?z (resetTime ?z now) = local_day ?z now + 1"
    if "local_time ?z now = 3 * msPerHour"
    using that
    by (simp add: resetTime_day) (simp add: resetTime_eq msPerHour_def msPerDay_def)
  have timer: "timeouts (scheduleDailyReset ?z now w)
        = timeouts w @ [\<lparr>callback = DailyReset, delay = resetTime ?z now - now\<rparr>]"
    by (simp add: scheduleDailyReset_def Let_def)
  from resetTime_at_two [of tz now] resetTime_ge [of now tz] resetTime_least [of now _ tz]
    strict fixed one three timer
  show ?thesis
    by blast
qed

text \<open>
  In the zone eight hours ahead of UTC: from 01:00 and from 03:00 local time of the day
  after the epoch, and from 02:00 sharp.
\<close>

theorem resetTime_next_occurrence_witness:
  "local_time (fixed_offset 28800000) 61200000 = 1 * msPerHour
   \<and> resetTime (fixed_offset 28800000) 61200000 = 64800000
   \<and> local_time (fixed_offset 28800000) 68400000 = 3 * msPerHour
   \<and> resetTime (fixed_offset 28800000) 68400000 = 151200000
   \<and> local_time (fixed_offset 28800000) 64800000 = 2 * msPerHour
   \<and> resetTime (fixed_offset 28800000) 64800000 = 64800000
   \<and> (64800000::int) < 151200000"
proof -
  let ?z = "fixed_offset 28800000"
  have t1: "local_time ?z 61200000 = 1 * msPerHour"
    and t3: "local_time ?z 68400000 = 3 * msPerHour"
    and t2: "local_time ?z 64800000 = 2 * msPerHour"
    by (simp_all add: local_time_fixed msPerDay_def msPerHour_def)
  from resetTime_next_occurrence [of 28800000 61200000 window0] t1
  have 1: "resetTime ?z 61200000 = 64800000"
    by (simp add: msPerHour_def)
  from resetTime_next_occurrence [of 28800000 68400000 window0] t3
  have 3: "resetTime ?z 68400000 = 151200000"
    by (simp add: msPerHour_def)
  from resetTime_next_occurrence [of 28800000 64800000 window0] t2
  have 2: "resetTime ?z 64800000 = 64800000"
    by simp
  from t1 t2 t3 1 2 3 show ?thesis
    by simp
qed

text \<open>
  At 02:00:00.000 sharp, here in the zone eight hours ahead of UTC, the test
  \<^verbatim>\<open>now > resetTime\<close> fails, the target stays at now and is not strictly after it; the
  timer is registered with delay 0.
\<close>

theorem resetTime_next_occurrence_counterexample:
  "local_time (fixed_offset 28800000) 64800000 = 2 * msPerHour
   \<and> resetTime (fixed_offset 28800000) 64800000 = 64800000
   \<and> \<not> (64800000 < resetTime (fixed_offset 28800000) 64800000)
   \<and> timeouts (scheduleDailyReset (fixed_offset 28800000) 64800000 window0)
       = [\<lparr>callback = DailyReset, delay = 0\<rparr>]"
  by (simp add: resetTime_def setHours2_def setDateNext_def scheduleDailyReset_def
      local_time_def fixed_offset_def MakeDate_def Day_def TimeWithinDay_def window0_def
      msPerDay_def msPerHour_def Let_def)

subsection \<open>The policy of \<^verbatim>\<open>handleSdkError\<close>\<close>

text \<open>
  C8, as amended. The handler follows a closed table by error code.
  \<^item> 10001: one alert is shown; no timer is registered and nothing else changes.
  \<^item> 10002: exactly one timer is registered, for \<^verbatim>\<open>initDigitalHumanSdk\<close> after 5000 ms,
    behind the timers already pending, which stay as they are; in particular a daily
    reset scheduled before is still pending with its delay. A line is logged.
  \<^item> 30001: when an SDK handle exists, its background becomes the default one and
    nothing else changes; when there is no handle, nothing happens at all.
  \<^item> any other value: one line is logged and nothing else changes; no alert, no timer.
\<close>

theorem handleSdkError_policy:
  "handleSdkError w (JNum (Finite 10001)) = w\<lparr>alerts := alerts w @ [ContainerInitFailed]\<rparr>
   \<and> timeouts (handleSdkError w (JNum (Finite 10001))) = timeouts w
   \<and> handleSdkError w (JNum (Finite 10002))
       = w\<lparr>console := console w @ [LogReconnecting],
            timeouts := timeouts w @ [\<lparr>callback = InitDigitalHumanSdk, delay = 5000\<rparr>]\<rparr>
   \<and> alerts (handleSdkError w (JNum (Finite 10002))) = alerts w
   \<and> timeouts (handleSdkError (scheduleDailyReset z now w) (JNum (Finite 10002)))
       = timeouts w @ [\<lparr>callback = DailyReset, delay = resetTime z now - now\<rparr>,
                       \<lparr>callback = InitDigitalHumanSdk, delay = 5000\<rparr>]
   \<and> (\<forall>h. digitalHumanSdk w = Some h \<longrightarrow>
        handleSdkError w (JNum (Finite 30001))
          = w\<lparr>digitalHumanSdk := Some (h\<lparr>background := DefaultBackground\<rparr>)\<rparr>)
   \<and> (digitalHumanSdk w = None \<longrightarrow> handleSdkError w (JNum (Finite 30001)) = w)
   \<and> (c \<noteq> JNum (Finite 10001) \<and> c \<noteq> JNum (Finite 10002) \<and> c \<noteq> JNum (Finite 30001) \<longrightarrow>
        handleSdkError w c = w\<lparr>console := console w @ [LogUnhandled c]\<rparr>
        \<and> alerts (handleSdkError w c) = alerts w
        \<and> timeouts (handleSdkError w c) = timeouts w
        \<and> digitalHumanSdk (handleSdkError w c) = digitalHumanSdk w)"
proof -
  have a: "handleSdkError w (JNum (Finite 10001))
             = w\<lparr>alerts := alerts w @ [ContainerInitFailed]\<rparr>"
    by (simp add: handleSdkError_def)
  have b: "handleSdkError v (JNum (Finite 10002))
       = v\<lparr>console := console v @ [LogReconnecting],
            timeouts := timeouts v @ [\<lparr>callback = InitDigitalHumanSdk, delay = 5000\<rparr>]\<rparr>" for v
    by (simp add: handleSdkError_def)
  have r: "timeouts (scheduleDailyReset z now w)
        = timeouts w @ [\<lparr>callback = DailyReset, delay = resetTime z now - now\<rparr>]"
    by (simp add: scheduleDailyReset_def Let_def)
  have c1: "handleSdkError w (JNum (Finite 30001))
          = w\<lparr>digitalHumanSdk := Some (h\<lparr>background := DefaultBackground\<rparr>)\<rparr>"
    if "digitalHumanSdk w = Some h" for h
    using that by (simp add: handleSdkError_def)
  have c2: "handleSdkError w (JNum (Finite 30001)) = w" if "digitalHumanSdk w = None"
    using that by (simp add: handleSdkError_def)
  have d: "handleSdkError w c = w\<lparr>console := console w @ [LogUnhandled c]\<rparr>"
    if "c \<noteq> JNum (Finite 10001)" "c \<noteq> JNum (Finite 10002)" "c \<noteq> JNum (Finite 30001)"
    using that by (simp add: handleSdkError_def)
  show ?thesis
    using c1 c2 d by (simp add: a b r)
qed

theorem handleSdkError_policy_witness:
  "handleSdkError window0 (JNum (Finite 10001))
     = \<lparr>digitalHumanSdk = None, alerts = [ContainerInitFailed], console = [], timeouts = []\<rparr>
   \<and> timeouts (handleSdkError (scheduleDailyReset (fixed_offset 28800000) 61200000 window0)
                 (JNum (Finite 10002)))
     = [\<lparr>callback = DailyReset, delay = 3600000\<rparr>,
        \<lparr>callback = InitDigitalHumanSdk, delay = 5000\<rparr>]
   \<and> handleSdkError (window0\<lparr>digitalHumanSdk := Some \<lparr>background = SceneBackground\<rparr>\<rparr>)
        (JNum (Finite 30001))
     = window0\<lparr>digitalHumanSdk := Some \<lparr>background = DefaultBackground\<rparr>\<rparr>
   \<and> handleSdkError window0 (JNum (Finite 20001))
     = \<lparr>digitalHumanSdk = None, alerts = [],
        console = [LogUnhandled (JNum (Finite 20001))], timeouts = []\<rparr>
   \<and> handleSdkError window0 (JStr ''10001'')
     = \<lparr>digitalHumanSdk = None, alerts = [],
        console = [LogUnhandled (JStr ''10001'')], timeouts = []\<rparr>"
proof -
  let ?w = "window0\<lparr>digitalHumanSdk := Some \<lparr>background = SceneBackground\<rparr>\<rparr>"
  have rt: "resetTime (fixed_offset 28800000) 61200000 - 61200000 = 3600000"
    by (simp add: resetTime_def setHours2_def setDateNext_def fixed_offset_def MakeDate_def
        Day_def TimeWithinDay_def msPerDay_def msPerHour_def)
  from handleSdkError_policy [where w = window0 and z = "fixed_offset 28800000"
      and now = 61200000 and c = "JNum (Finite 20001)"] rt
  have 1: "handleSdkError window0 (JNum (Finite 10001))
     = \<lparr>digitalHumanSdk = None, alerts = [ContainerInitFailed], console = [], timeouts = []\<rparr>
   \<and> timeouts (handleSdkError (scheduleDailyReset (fixed_offset 28800000) 61200000 window0)
                 (JNum (Finite 10002)))
     = [\<lparr>callback = DailyReset, delay = 3600000\<rparr>,
        \<lparr>callback = InitDigitalHumanSdk, delay = 5000\<rparr>]
   \<and> handleSdkError window0 (JNum (Finite 20001))
     = \<lparr>digitalHumanSdk = None, alerts = [],
        console = [LogUnhandled (JNum (Finite 20001))], timeouts = []\<rparr>"
    by (simp add: window0_def)
  from handleSdkError_policy [where w = ?w and c = "JStr ''10001''"]
  have 2: "handleSdkError ?w (JNum (Finite 30001))
     = window0\<lparr>digitalHumanSdk := Some \<lparr>background = DefaultBackground\<rparr>\<rparr>"
    by (simp add: window0_def)
  from handleSdkError_policy [where w = window0 and c = "JStr ''10001''"]
  have 3: "handleSdkError window0 (JStr ''10001'')
     = \<lparr>digitalHumanSdk = None, alerts = [],
        console = [LogUnhandled (JStr ''10001'')], timeouts = []\<rparr>"
    by (simp add: window0_def)
  from 1 2 3 show ?thesis
    by blast
qed

text \<open>
  Code 30001 on a page that has no SDK handle: the optional call is skipped, no
  background is switched and the page is left as it was.
\<close>

theorem handleSdkError_policy_counterexample:
  "digitalHumanSdk window0 = None
   \<and> handleSdkError window0 (JNum (Finite 30001)) = window0
   \<and> digitalHumanSdk (handleSdkError window0 (JNum (Finite 30001)))
       \<noteq> Some \<lparr>background = DefaultBackground\<rparr>"
  by (simp add: handleSdkError_def window0_def)

end
